theory Spec2Isabelle
  imports Main
begin

section \<open>Python values and exceptions\<close>

text \<open>
  The pipeline of \<^verbatim>\<open>msft.py\<close> moves JSON data between four Airflow tasks:
  \<^verbatim>\<open>extract\<close>, \<^verbatim>\<open>return_last_90d_price\<close>, \<^verbatim>\<open>transform\<close> and \<^verbatim>\<open>load\<close>.
  A Python value is one of the values \<^verbatim>\<open>json.loads\<close> produces. A dict is an
  association list in insertion order, its keys distinct; lookup takes the first entry of a
  key. JSON numbers are integers here: a number with a fraction (a Python float) is outside
  the model. Strings are lists of 8-bit characters, read as the code points below 256.
\<close>

datatype json =
    JNull
  | JBool bool
  | JInt int
  | JStr string
  | JArr "json list"
  | JObj "(string \<times> json) list"

text \<open>
  The exceptions the code can meet. All of them are subclasses of \<^verbatim>\<open>Exception\<close>;
  the last three are what the collaborators raise: \<^verbatim>\<open>requests.get\<close>,
  \<^verbatim>\<open>response.json()\<close> and the warehouse driver.
\<close>

datatype error =
    KeyError string
  | TypeError
  | ValueError
  | AttributeError
  | OverflowError
  | RequestException
  | JSONDecodeError
  | DatabaseError

text \<open>\<^verbatim>\<open>v[k]\<close> for a string key \<open>k\<close>: only a dict can be read with one.\<close>

fun subscript :: "json \<Rightarrow> string \<Rightarrow> error + json" where
  "subscript (JObj kvs) k = (case map_of kvs k of None \<Rightarrow> Inl (KeyError k) | Some v \<Rightarrow> Inr v)"
| "subscript _ k = Inl TypeError"

text \<open>\<^verbatim>\<open>v.get(k, default)\<close>: only a dict has the method.\<close>

fun dict_get :: "json \<Rightarrow> string \<Rightarrow> json \<Rightarrow> error + json" where
  "dict_get (JObj kvs) k dflt = Inr (case map_of kvs k of None \<Rightarrow> dflt | Some v \<Rightarrow> v)"
| "dict_get _ k dflt = Inl AttributeError"

text \<open>
  \<^verbatim>\<open>for d in v\<close>: a dict yields its keys, a list its elements, a string its characters;
  nothing else can be iterated.
\<close>

fun py_iter :: "json \<Rightarrow> error + json list" where
  "py_iter (JObj kvs) = Inr (map (\<lambda>kv. JStr (fst kv)) kvs)"
| "py_iter (JArr xs) = Inr xs"
| "py_iter (JStr s) = Inr (map (\<lambda>c. JStr [c]) s)"
| "py_iter _ = Inl TypeError"

subsection \<open>Formatting a value into an f-string\<close>

text \<open>
  \<^verbatim>\<open>f"{v}"\<close> is \<^verbatim>\<open>str(v)\<close>: a string stands for itself, every other value for its
  \<^verbatim>\<open>repr\<close>. The \<^verbatim>\<open>repr\<close> of a string picks the quote (double quotes only when the
  text has a single quote and no double quote), escapes the quote and the backslash, writes
  tab, newline and carriage return as \<^verbatim>\<open>\t \n \r\<close> and every other non-printable
  character as \<^verbatim>\<open>\xNN\<close>.
\<close>

definition squote :: char where
  "squote = CHR 0x27"

definition dquote :: char where
  "dquote = CHR 0x22"

definition backslash :: char where
  "backslash = CHR 0x5C"

definition newline :: char where
  "newline = CHR 0x0A"

definition digit_char :: "nat \<Rightarrow> char" where
  "digit_char n = ''0123456789abcdef'' ! n"

fun dec_nat :: "nat \<Rightarrow> string" where
  "dec_nat n = (if n < 10 then [digit_char n] else dec_nat (n div 10) @ [digit_char (n mod 10)])"

declare dec_nat.simps [simp del]

definition int_str :: "int \<Rightarrow> string" where
  "int_str i = (if i < 0 then CHR ''-'' # dec_nat (nat (- i)) else dec_nat (nat i))"

definition printable :: "char \<Rightarrow> bool" where
  "printable c = (let n = (of_char c :: nat) in (32 \<le> n \<and> n < 127) \<or> (161 \<le> n \<and> n \<noteq> 173))"

definition repr_char :: "char \<Rightarrow> char \<Rightarrow> string" where
  "repr_char q c =
     (if c = q \<or> c = backslash then [backslash, c]
      else if c = CHR 0x09 then [backslash, CHR ''t'']
      else if c = newline then [backslash, CHR ''n'']
      else if c = CHR 0x0D then [backslash, CHR ''r'']
      else if printable c then [c]
      else [backslash, CHR ''x'', digit_char (of_char c div 16), digit_char (of_char c mod 16)])"

definition str_repr :: "string \<Rightarrow> string" where
  "str_repr s =
     (let q = (if squote \<in> set s \<and> dquote \<notin> set s then dquote else squote)
      in q # concat (map (repr_char q) s) @ [q])"

fun join :: "string \<Rightarrow> string list \<Rightarrow> string" where
  "join sep [] = []"
| "join sep [x] = x"
| "join sep (x # y # ys) = x @ sep @ join sep (y # ys)"

fun py_repr :: "json \<Rightarrow> string" where
  "py_repr JNull = ''None''"
| "py_repr (JBool b) = (if b then ''True'' else ''False'')"
| "py_repr (JInt i) = int_str i"
| "py_repr (JStr s) = str_repr s"
| "py_repr (JArr xs) = ''['' @ join '', '' (map py_repr xs) @ '']''"
| "py_repr (JObj kvs) =
     ''{'' @ join '', '' (map (\<lambda>kv. str_repr (fst kv) @ '': '' @ py_repr (snd kv)) kvs) @ ''}''"

fun py_str :: "json \<Rightarrow> string" where
  "py_str (JStr s) = s"
| "py_str v = py_repr v"

section \<open>Dates\<close>

text \<open>
  A \<^verbatim>\<open>datetime\<close> is kept as its proleptic Gregorian day number (what
  \<^verbatim>\<open>toordinal()\<close> returns, day 1 being 0001-01-01) and the microseconds since
  midnight. Python orders datetimes by year, month, day and time of day, which is the order
  of these pairs, and a \<^verbatim>\<open>timedelta\<close> of whole days moves the day number only.
\<close>

record datetime =
  ordinal :: int
  micros :: nat

definition is_leap :: "int \<Rightarrow> bool" where
  "is_leap year = (year mod 4 = 0 \<and> (year mod 100 \<noteq> 0 \<or> year mod 400 = 0))"

definition days_before_year :: "int \<Rightarrow> int" where
  "days_before_year year = (let y = year - 1 in y * 365 + y div 4 - y div 100 + y div 400)"

definition DAYS_IN_MONTH :: "int list" where
  "DAYS_IN_MONTH = [-1, 31, 28, 31, 30, 31, 30, 31, 31, 30, 31, 30, 31]"

definition DAYS_BEFORE_MONTH :: "int list" where
  "DAYS_BEFORE_MONTH = [-1, 0, 31, 59, 90, 120, 151, 181, 212, 243, 273, 304, 334]"

definition days_in_month :: "int \<Rightarrow> nat \<Rightarrow> int" where
  "days_in_month year month = (if month = 2 \<and> is_leap year then 29 else DAYS_IN_MONTH ! month)"

definition days_before_month :: "int \<Rightarrow> nat \<Rightarrow> int" where
  "days_before_month year month =
     DAYS_BEFORE_MONTH ! month + (if month > 2 \<and> is_leap year then 1 else 0)"

definition ymd2ord :: "int \<Rightarrow> nat \<Rightarrow> int \<Rightarrow> int" where
  "ymd2ord year month day = days_before_year year + days_before_month year month + day"

text \<open>
  \<^verbatim>\<open>datetime(year, month, day, hour, minute, second)\<close> for fields in range; it
  builds the reference instants of the examples.
\<close>

definition mk_datetime :: "int \<Rightarrow> nat \<Rightarrow> int \<Rightarrow> nat \<Rightarrow> nat \<Rightarrow> nat \<Rightarrow> datetime" where
  "mk_datetime year month day hour minute second =
     \<lparr>ordinal = ymd2ord year month day,
      micros = ((hour * 60 + minute) * 60 + second) * 1000000\<rparr>"

text \<open>\<^verbatim>\<open>a >= b\<close> on datetimes.\<close>

definition dt_ge :: "datetime \<Rightarrow> datetime \<Rightarrow> bool" where
  "dt_ge a b = (ordinal b < ordinal a \<or> (ordinal a = ordinal b \<and> micros b \<le> micros a))"

text \<open>
  \<^verbatim>\<open>t - timedelta(days=n)\<close>: the day number must stay within 1 and the day number of
  9999-12-31, or Python raises OverflowError.
\<close>

definition MAXORDINAL :: int where
  "MAXORDINAL = 3652059"

definition sub_days :: "datetime \<Rightarrow> int \<Rightarrow> error + datetime" where
  "sub_days t n =
     (let day = ordinal t - n
      in if 0 < day \<and> day \<le> MAXORDINAL then Inr (t\<lparr>ordinal := day\<rparr>)
         else Inl OverflowError)"

subsection \<open>\<^verbatim>\<open>datetime.strptime(s, "%Y-%m-%d")\<close>\<close>

text \<open>
  The format compiles to the regular expression
  \<^verbatim>\<open>(\d\d\d\d)-(1[0-2]|0[1-9]|[1-9])-(3[0-1]|[1-2]\d|0[1-9]|[1-9]| [1-9])\<close>,
  matched at the start of the string. A matcher lists every way to match a prefix, as
  the matched text and the rest, in the order a backtracking matcher tries them; the
  first complete way is the match. Text left after the match, a year 0 or a day the month
  does not have is a ValueError.
\<close>

type_synonym matcher = "string \<Rightarrow> (string \<times> string) list"

definition one_of :: "string \<Rightarrow> matcher" where
  "one_of cs s = (case s of [] \<Rightarrow> [] | c # r \<Rightarrow> if c \<in> set cs then [([c], r)] else [])"

definition seq :: "matcher \<Rightarrow> matcher \<Rightarrow> matcher" where
  "seq p q s = concat (map (\<lambda>ar. map (\<lambda>br. (fst ar @ fst br, snd br)) (q (snd ar))) (p s))"

definition alt :: "matcher \<Rightarrow> matcher \<Rightarrow> matcher" where
  "alt p q s = p s @ q s"

definition re_digit :: matcher where
  "re_digit = one_of ''0123456789''"

definition re_nonzero :: matcher where
  "re_nonzero = one_of ''123456789''"

definition re_Y :: matcher where
  "re_Y = seq re_digit (seq re_digit (seq re_digit re_digit))"

definition re_m :: matcher where
  "re_m = alt (seq (one_of ''1'') (one_of ''012''))
         (alt (seq (one_of ''0'') re_nonzero) re_nonzero)"

definition re_d :: matcher where
  "re_d = alt (seq (one_of ''3'') (one_of ''01''))
         (alt (seq (one_of ''12'') re_digit)
         (alt (seq (one_of ''0'') re_nonzero)
         (alt re_nonzero (seq (one_of '' '') re_nonzero))))"

text \<open>The groups of every match of the whole expression, with the text left over.\<close>

definition re_Ymd :: "string \<Rightarrow> (string \<times> string \<times> string \<times> string) list" where
  "re_Ymd s =
     concat (map (\<lambda>y.
       concat (map (\<lambda>h1.
         concat (map (\<lambda>m.
           concat (map (\<lambda>h2.
             map (\<lambda>d. (fst y, fst m, fst d, snd d)) (re_d (snd h2)))
           (one_of ''-'' (snd m))))
         (re_m (snd h1))))
       (one_of ''-'' (snd y))))
     (re_Y s))"

text \<open>\<^verbatim>\<open>int(text)\<close> on a group: decimal digits, surrounding blanks ignored.\<close>

definition digit_val :: "char \<Rightarrow> nat" where
  "digit_val c = of_char c - 48"

definition int_of_group :: "string \<Rightarrow> nat" where
  "int_of_group s = foldl (\<lambda>a c. 10 * a + digit_val c) 0 (filter (\<lambda>c. c \<noteq> CHR '' '') s)"

definition strptime :: "string \<Rightarrow> error + datetime" where
  "strptime s =
     (case re_Ymd s of
        [] \<Rightarrow> Inl ValueError
      | (y, m, d, rest) # _ \<Rightarrow>
          if rest \<noteq> [] then Inl ValueError
          else
            let year = int (int_of_group y); month = int_of_group m; day = int (int_of_group d)
            in if \<not> (1 \<le> year \<and> year \<le> 9999) then Inl ValueError
               else if \<not> (1 \<le> month \<and> month \<le> 12) then Inl ValueError
               else if \<not> (1 \<le> day \<and> day \<le> days_in_month year month) then Inl ValueError
               else Inr \<lparr>ordinal = ymd2ord year month day, micros = 0\<rparr>)"

text \<open>The argument must be a string.\<close>

fun strptime_val :: "json \<Rightarrow> error + datetime" where
  "strptime_val (JStr s) = strptime s"
| "strptime_val _ = Inl TypeError"

section \<open>Sequencing calls that may raise\<close>

text \<open>A call that raises ends the function with that exception; otherwise the next one runs.\<close>

definition and_then :: "error + 'a \<Rightarrow> ('a \<Rightarrow> error + 'b) \<Rightarrow> error + 'b" where
  "and_then m f = (case m of Inl e \<Rightarrow> Inl e | Inr v \<Rightarrow> f v)"

section \<open>The collaborators of the fetching tasks\<close>

text \<open>
  What \<^verbatim>\<open>requests.get\<close> hands back: the status of the HTTP response, and what its
  \<^verbatim>\<open>json()\<close> method returns or raises.
\<close>

record response =
  status_code :: nat
  body_json :: "error + json"

text \<open>
  The world the tasks read: the Airflow Variable store (\<^verbatim>\<open>Variable.get\<close> raises
  KeyError for a name it does not hold), \<^verbatim>\<open>url_template.format(symbol=..,
  vantage_api_key=..)\<close>, the outcome of \<^verbatim>\<open>requests.get\<close> for a URL, and the clock
  \<^verbatim>\<open>datetime.today()\<close>.
\<close>

record env =
  variables :: "string \<Rightarrow> string option"
  str_format :: "string \<Rightarrow> string \<Rightarrow> string \<Rightarrow> error + string"
  http_get :: "string \<Rightarrow> error + response"
  today :: datetime

definition variable_get :: "env \<Rightarrow> string \<Rightarrow> error + string" where
  "variable_get E k = (case variables E k of None \<Rightarrow> Inl (KeyError k) | Some v \<Rightarrow> Inr v)"

text \<open>The same environment, with every HTTP response given the status \<open>c\<close>.\<close>

definition with_status :: "nat \<Rightarrow> env \<Rightarrow> env" where
  "with_status c E =
     E\<lparr>http_get := (\<lambda>url. case http_get E url of
                               Inl e \<Rightarrow> Inl e
                             | Inr r \<Rightarrow> Inr (r\<lparr>status_code := c\<rparr>))\<rparr>"

section \<open>Task 1: \<^verbatim>\<open>extract\<close>\<close>

text \<open>The task is named \<open>extract_task\<close> here: \<open>extract\<close> is a command of Isabelle.\<close>

definition extract_task :: "env \<Rightarrow> error + json" where
  "extract_task E =
     and_then (variable_get E ''alpha_vantage_api_key'') (\<lambda>api_key.
     and_then (variable_get E ''url'') (\<lambda>url_template.
     let symbol = ''MSFT'' in
     and_then (str_format E url_template symbol api_key) (\<lambda>url.
     and_then (http_get E url) (\<lambda>response.
     and_then (body_json response) (\<lambda>data.
     Inr data)))))"

section \<open>Task 2: \<^verbatim>\<open>return_last_90d_price\<close>\<close>

definition TIME_SERIES :: string where
  "TIME_SERIES = ''Time Series (Daily)''"

text \<open>\<^verbatim>\<open>data["Time Series (Daily)"][d][f]\<close>\<close>

definition bar_field :: "json \<Rightarrow> string \<Rightarrow> string \<Rightarrow> error + json" where
  "bar_field data d f =
     and_then (subscript data TIME_SERIES) (\<lambda>series.
     and_then (subscript series d) (\<lambda>bar.
     subscript bar f))"

text \<open>The dict literal \<^verbatim>\<open>price_data\<close>: its values are evaluated in the order written.\<close>

definition price_data :: "json \<Rightarrow> string \<Rightarrow> string \<Rightarrow> error + json" where
  "price_data data symbol d =
     and_then (bar_field data d ''1. open'') (\<lambda>open_v.
     and_then (bar_field data d ''2. high'') (\<lambda>high_v.
     and_then (bar_field data d ''3. low'') (\<lambda>low_v.
     and_then (bar_field data d ''4. close'') (\<lambda>close_v.
     and_then (bar_field data d ''5. volume'') (\<lambda>volume_v.
     Inr (JObj [(''date'', JStr d), (''open'', open_v), (''high'', high_v), (''low'', low_v),
                (''close'', close_v), (''volume'', volume_v), (''symbol'', JStr symbol)]))))))"

text \<open>
  The \<^verbatim>\<open>for d in ...\<close> loop: the keys still to visit and the \<^verbatim>\<open>results\<close> so far.
  \<^verbatim>\<open>strptime\<close> is not guarded, so the first key it rejects ends the task.
\<close>

fun window_loop :: "json \<Rightarrow> string \<Rightarrow> datetime \<Rightarrow> json list \<Rightarrow> json list \<Rightarrow> error + json list" where
  "window_loop data symbol ninety_days_ago [] results = Inr results"
| "window_loop data symbol ninety_days_ago (JStr d # ds) results =
     (case strptime d of
        Inl e \<Rightarrow> Inl e
      | Inr date_obj \<Rightarrow>
          if dt_ge date_obj ninety_days_ago then
            (case price_data data symbol d of
               Inl e \<Rightarrow> Inl e
             | Inr pd \<Rightarrow> window_loop data symbol ninety_days_ago ds (results @ [pd]))
          else window_loop data symbol ninety_days_ago ds results)"
| "window_loop data symbol ninety_days_ago (_ # ds) results = Inl TypeError"

text \<open>
  Lines 58 to 77 of the task: everything after the response is parsed. \<open>now\<close> is what
  \<^verbatim>\<open>datetime.today()\<close> returned, time of day included.
\<close>

definition last_90d :: "json \<Rightarrow> string \<Rightarrow> datetime \<Rightarrow> error + json list" where
  "last_90d data symbol now =
     and_then (sub_days now 90) (\<lambda>ninety_days_ago.
     and_then (dict_get data TIME_SERIES (JObj [])) (\<lambda>series.
     and_then (py_iter series) (\<lambda>keys.
     window_loop data symbol ninety_days_ago keys [])))"

definition return_last_90d_price :: "env \<Rightarrow> string \<Rightarrow> error + json list" where
  "return_last_90d_price E symbol =
     and_then (variable_get E ''alpha_vantage_api_key'') (\<lambda>vantage_api_key.
     let url = ''https://www.alphavantage.co/query?function=TIME_SERIES_DAILY&symbol=''
               @ symbol @ ''&apikey='' @ vantage_api_key in
     and_then (http_get E url) (\<lambda>r.
     and_then (body_json r) (\<lambda>data.
     last_90d data symbol (today E))))"

text \<open>The keys the loop visits (none when \<open>data\<close> has no series that can be iterated).\<close>

definition series_keys :: "json \<Rightarrow> json list" where
  "series_keys data =
     (case and_then (dict_get data TIME_SERIES (JObj [])) py_iter of
        Inl e \<Rightarrow> []
      | Inr keys \<Rightarrow> keys)"

text \<open>
  The test of the loop, read on the calendar: a date key passes when its day is later
  than the day 90 days before today, or is that very day and \<open>now\<close> is exactly midnight.
\<close>

definition kept :: "datetime \<Rightarrow> json \<Rightarrow> bool" where
  "kept now d =
     (case strptime_val d of
        Inl e \<Rightarrow> False
      | Inr date_obj \<Rightarrow>
          ordinal now - 90 < ordinal date_obj
          \<or> (ordinal date_obj = ordinal now - 90 \<and> micros now = 0))"

text \<open>The test of the loop on a key, for the bound the loop was given.\<close>

definition passes :: "datetime \<Rightarrow> json \<Rightarrow> bool" where
  "passes ninety_days_ago d =
     (case strptime_val d of Inl e \<Rightarrow> False | Inr date_obj \<Rightarrow> dt_ge date_obj ninety_days_ago)"

text \<open>
  A series as the API documents it: every key parses as a date and every bar holds the five
  fields.
\<close>

definition has_fields :: "json \<Rightarrow> bool" where
  "has_fields bar =
     list_all (\<lambda>f. \<not> isl (subscript bar f))
       [''1. open'', ''2. high'', ''3. low'', ''4. close'', ''5. volume'']"

definition well_formed_series :: "(string \<times> json) list \<Rightarrow> bool" where
  "well_formed_series bars =
     list_all (\<lambda>kb. \<not> isl (strptime (fst kb)) \<and> has_fields (snd kb)) bars"

section \<open>Task 3: \<^verbatim>\<open>transform\<close>\<close>

text \<open>
  The loop appends every entry to \<^verbatim>\<open>processed_data\<close>. The line printed with
  \<^verbatim>\<open>json.dumps\<close> goes to the task log and is not part of the result.
\<close>

fun transform_loop :: "'a list \<Rightarrow> 'a list \<Rightarrow> 'a list" where
  "transform_loop [] processed_data = processed_data"
| "transform_loop (entry # rest) processed_data = transform_loop rest (processed_data @ [entry])"

definition transform :: "'a list \<Rightarrow> 'a list" where
  "transform stock_data = transform_loop stock_data []"

section \<open>Task 4: \<^verbatim>\<open>load\<close>\<close>

text \<open>
  The warehouse behind \<^verbatim>\<open>SnowflakeHook\<close> is a parameter: a state \<open>'s\<close> and the seven
  calls the task makes, each returning the exception it raised (if any) and the state it
  left.
\<close>

record 's warehouse =
  get_conn :: "'s \<Rightarrow> error option \<times> 's"
  cursor :: "'s \<Rightarrow> error option \<times> 's"
  execute :: "string \<Rightarrow> 's \<Rightarrow> error option \<times> 's"
  commit :: "'s \<Rightarrow> error option \<times> 's"
  rollback :: "'s \<Rightarrow> error option \<times> 's"
  cursor_close :: "'s \<Rightarrow> error option \<times> 's"
  conn_close :: "'s \<Rightarrow> error option \<times> 's"

definition target_table :: string where
  "target_table = ''stock.msft.stock_price''"

definition create_sql :: string where
  "create_sql =
     [newline] @ ''        CREATE OR REPLACE TABLE '' @ target_table @ '' (''
     @ [newline] @ ''          date DATE PRIMARY KEY,''
     @ [newline] @ ''          symbol VARCHAR,''
     @ [newline] @ ''          open NUMBER,''
     @ [newline] @ ''          high NUMBER,''
     @ [newline] @ ''          low NUMBER,''
     @ [newline] @ ''          close NUMBER,''
     @ [newline] @ ''          volume NUMBER''
     @ [newline] @ ''        )''
     @ [newline] @ ''        ''"

text \<open>
  The statement of one record: the seven reads \<^verbatim>\<open>r['date']\<close> ... \<^verbatim>\<open>r['volume']\<close>,
  then the f-string, which writes the values into the text of the statement.
\<close>

definition insert_sql :: "json \<Rightarrow> error + string" where
  "insert_sql r =
     and_then (subscript r ''date'') (\<lambda>date.
     and_then (subscript r ''symbol'') (\<lambda>symbol.
     and_then (subscript r ''open'') (\<lambda>open_price.
     and_then (subscript r ''high'') (\<lambda>high_price.
     and_then (subscript r ''low'') (\<lambda>low_price.
     and_then (subscript r ''close'') (\<lambda>close_price.
     and_then (subscript r ''volume'') (\<lambda>volume.
     Inr ([newline] @ ''            INSERT INTO '' @ target_table
          @ '' (date, symbol, open, high, low, close, volume)''
          @ [newline] @ ''            VALUES (TO_DATE('' @ [squote] @ py_str date @ [squote]
          @ '', '' @ [squote] @ ''YYYY-MM-DD'' @ [squote] @ ''), ''
          @ [squote] @ py_str symbol @ [squote]
          @ '', '' @ py_str open_price @ '', '' @ py_str high_price
          @ '', '' @ py_str low_price @ '', '' @ py_str close_price
          @ '', '' @ py_str volume @ '')''
          @ [newline] @ ''            ''))))))))"

text \<open>The \<^verbatim>\<open>for r in records\<close> loop: it stops at the first exception.\<close>

fun insert_loop :: "'s warehouse \<Rightarrow> json list \<Rightarrow> 's \<Rightarrow> error option \<times> 's" where
  "insert_loop W [] s = (None, s)"
| "insert_loop W (r # rs) s =
     (case insert_sql r of
        Inl e \<Rightarrow> (Some e, s)
      | Inr sql \<Rightarrow>
          (case execute W sql s of
             (Some e, s') \<Rightarrow> (Some e, s')
           | (None, s') \<Rightarrow> insert_loop W rs s'))"

text \<open>The statements of the \<^verbatim>\<open>try\<close> block: the table, then the inserts.\<close>

definition run_statements :: "'s warehouse \<Rightarrow> json list \<Rightarrow> 's \<Rightarrow> error option \<times> 's" where
  "run_statements W records s =
     (case execute W create_sql s of
        (Some e, s1) \<Rightarrow> (Some e, s1)
      | (None, s1) \<Rightarrow> insert_loop W records s1)"

text \<open>The whole \<^verbatim>\<open>try\<close> block: the statements, then \<^verbatim>\<open>conn.commit()\<close>.\<close>

definition try_body :: "'s warehouse \<Rightarrow> json list \<Rightarrow> 's \<Rightarrow> error option \<times> 's" where
  "try_body W records s =
     (case run_statements W records s of
        (Some e, s2) \<Rightarrow> (Some e, s2)
      | (None, s2) \<Rightarrow> commit W s2)"

text \<open>
  The task. An empty batch returns at once. Otherwise the connection and the cursor are
  taken outside the \<^verbatim>\<open>try\<close>; an exception of the block is caught by
  \<^verbatim>\<open>except Exception\<close>, which rolls back and prints; \<^verbatim>\<open>finally\<close> closes the
  cursor, then the connection. No path has a \<^verbatim>\<open>return\<close> with a value or a
  \<^verbatim>\<open>raise\<close>: the task returns \<^verbatim>\<open>None\<close> unless the rollback or a close raises.
\<close>

definition load :: "'s warehouse \<Rightarrow> json list \<Rightarrow> 's \<Rightarrow> (error + json) \<times> 's" where
  "load W records s =
     (if records = [] then (Inr JNull, s)
      else
        (case get_conn W s of
           (Some e, s1) \<Rightarrow> (Inl e, s1)
         | (None, s1) \<Rightarrow>
        (case cursor W s1 of
           (Some e, s2) \<Rightarrow> (Inl e, s2)
         | (None, s2) \<Rightarrow>
        (case try_body W records s2 of (raised, s3) \<Rightarrow>
        (case (case raised of None \<Rightarrow> (None, s3) | Some e \<Rightarrow> rollback W s3) of (pending, s4) \<Rightarrow>
        (case cursor_close W s4 of
           (Some e, s5) \<Rightarrow> (Inl e, s5)
         | (None, s5) \<Rightarrow>
        (case conn_close W s5 of
           (Some e, s6) \<Rightarrow> (Inl e, s6)
         | (None, s6) \<Rightarrow>
        (case pending of
           Some e \<Rightarrow> (Inl e, s6)
         | None \<Rightarrow> (Inr JNull, s6)))))))))"

text \<open>
  The exception a statement of the batch (the table or an insert) raises in the run of
  \<open>load\<close> from \<open>s\<close>, if the run gets that far and one does.
\<close>

definition statements_error :: "'s warehouse \<Rightarrow> json list \<Rightarrow> 's \<Rightarrow> error option" where
  "statements_error W records s =
     (case get_conn W s of
        (Some e, s1) \<Rightarrow> None
      | (None, s1) \<Rightarrow>
     (case cursor W s1 of
        (Some e, s2) \<Rightarrow> None
      | (None, s2) \<Rightarrow> fst (run_statements W records s2)))"


text \<open>
  The contract of a transactional connection, for an observation \<open>durable\<close> of the state
  (the contents of the tables as committed): no call but \<^verbatim>\<open>commit\<close> changes it.
\<close>

definition only_commit_persists :: "'s warehouse \<Rightarrow> ('s \<Rightarrow> 'c) \<Rightarrow> bool" where
  "only_commit_persists W durable =
     ((\<forall>s. durable (snd (get_conn W s)) = durable s)
      \<and> (\<forall>s. durable (snd (cursor W s)) = durable s)
      \<and> (\<forall>q s. durable (snd (execute W q s)) = durable s)
      \<and> (\<forall>s. durable (snd (rollback W s)) = durable s)
      \<and> (\<forall>s. durable (snd (cursor_close W s)) = durable s)
      \<and> (\<forall>s. durable (snd (conn_close W s)) = durable s))"


section \<open>The DAG\<close>

text \<open>
  The \<^verbatim>\<open>with dag:\<close> block calls the four tasks; a task depends on the tasks whose
  results it is given. \<^verbatim>\<open>return_last_90d_price('MSFT')\<close> is given a constant, so it
  does not wait for \<^verbatim>\<open>extract\<close>, whose result \<^verbatim>\<open>stock_data\<close> nothing reads. A task
  whose upstream task failed is not invoked (\<open>None\<close>). One attempt per task is modelled.
\<close>

record 's dag_run =
  extract_outcome :: "error + json"
  filter_outcome :: "error + json list"
  transform_outcome :: "json list option"
  load_outcome :: "(error + json) option"
  warehouse_after :: 's

definition run_dag :: "env \<Rightarrow> 's warehouse \<Rightarrow> 's \<Rightarrow> 's dag_run" where
  "run_dag E W s =
     (let stock_data = extract_task E;
          last_90_days_data = return_last_90d_price E ''MSFT''
      in case last_90_days_data of
           Inl e \<Rightarrow>
             \<lparr>extract_outcome = stock_data, filter_outcome = last_90_days_data,
              transform_outcome = None, load_outcome = None, warehouse_after = s\<rparr>
         | Inr bars \<Rightarrow>
             (let transformed_data = transform bars
              in case load W transformed_data s of (result, s') \<Rightarrow>
                   \<lparr>extract_outcome = stock_data, filter_outcome = last_90_days_data,
                    transform_outcome = Some transformed_data, load_outcome = Some result,
                    warehouse_after = s'\<rparr>))"

section \<open>Test data and test doubles\<close>

text \<open>One bar of the API, and a response with four dates around the window.\<close>

definition sample_bar :: json where
  "sample_bar = JObj [(''1. open'', JStr ''10''), (''2. high'', JStr ''12''),
                      (''3. low'', JStr ''9''), (''4. close'', JStr ''11''),
                      (''5. volume'', JStr ''1000'')]"

definition sample_data :: json where
  "sample_data =
     JObj [(''Meta Data'', JObj [(''2. Symbol'', JStr ''MSFT'')]),
           (''Time Series (Daily)'',
            JObj [(''2024-03-01'', sample_bar), (''2024-01-10'', sample_bar),
                  (''2023-11-03'', sample_bar), (''2023-10-01'', sample_bar)])]"

text \<open>Noon of 2024-02-01; the day 90 days before it is 2023-11-03.\<close>

definition sample_now :: datetime where
  "sample_now = mk_datetime 2024 2 1 12 0 0"

text \<open>A series with a key that is not a date, after one that is.\<close>

definition bad_key_data :: json where
  "bad_key_data =
     JObj [(''Time Series (Daily)'',
            JObj [(''2024-01-10'', sample_bar), (''not-a-date'', sample_bar)])]"

text \<open>The record the filter emits for a date key of \<open>sample_data\<close>.\<close>

definition sample_record :: "string \<Rightarrow> string \<Rightarrow> json" where
  "sample_record d symbol =
     JObj [(''date'', JStr d), (''open'', JStr ''10''), (''high'', JStr ''12''),
           (''low'', JStr ''9''), (''close'', JStr ''11''), (''volume'', JStr ''1000''),
           (''symbol'', JStr symbol)]"

text \<open>A record whose \<^verbatim>\<open>open\<close> is not a number.\<close>

definition malformed_record :: json where
  "malformed_record =
     JObj [(''date'', JStr ''2024-01-10''), (''open'', JStr ''abc''), (''high'', JStr ''12''),
           (''low'', JStr ''9''), (''close'', JStr ''11''), (''volume'', JStr ''1000''),
           (''symbol'', JStr ''MSFT'')]"

text \<open>
  A transactional store: statements are staged, \<^verbatim>\<open>commit\<close> makes the staged ones
  durable, \<^verbatim>\<open>rollback\<close> drops them. It refuses a statement once \<open>cap\<close> statements are
  staged, and it logs every call it receives.
\<close>

record store =
  committed :: "string list"
  staged :: "string list"
  calls :: "string list"

definition logged :: "string \<Rightarrow> store \<Rightarrow> store" where
  "logged name s = s\<lparr>calls := calls s @ [name]\<rparr>"

definition limited_wh :: "nat \<Rightarrow> store warehouse" where
  "limited_wh cap =
     \<lparr>get_conn = (\<lambda>s. (None, logged ''get_conn'' s)),
      cursor = (\<lambda>s. (None, logged ''cursor'' s)),
      execute = (\<lambda>q s. if length (staged s) < cap
                        then (None, logged ''execute'' (s\<lparr>staged := staged s @ [q]\<rparr>))
                        else (Some DatabaseError, logged ''execute'' s)),
      commit = (\<lambda>s. (None, logged ''commit'' (s\<lparr>committed := committed s @ staged s, staged := []\<rparr>))),
      rollback = (\<lambda>s. (None, logged ''rollback'' (s\<lparr>staged := []\<rparr>))),
      cursor_close = (\<lambda>s. (None, logged ''cursor.close'' s)),
      conn_close = (\<lambda>s. (None, logged ''conn.close'' s))\<rparr>"

definition store0 :: store where
  "store0 = \<lparr>committed = [''rows of an earlier run''], staged = [], calls = []\<rparr>"

text \<open>
  A store on which a statement takes effect when it is executed, as on a session left in
  autocommit: \<^verbatim>\<open>CREATE OR REPLACE TABLE\<close> empties the table, an insert adds its row,
  and \<^verbatim>\<open>commit\<close> and \<^verbatim>\<open>rollback\<close> find nothing pending. It refuses the
  statements \<open>rejects\<close> picks. The task takes the session as \<^verbatim>\<open>get_conn()\<close> hands it
  over: it begins no transaction and sets no autocommit mode.
\<close>

definition autocommit_wh :: "(string \<Rightarrow> bool) \<Rightarrow> store warehouse" where
  "autocommit_wh rejects =
     \<lparr>get_conn = (\<lambda>s. (None, logged ''get_conn'' s)),
      cursor = (\<lambda>s. (None, logged ''cursor'' s)),
      execute = (\<lambda>q s. if rejects q then (Some DatabaseError, logged ''execute'' s)
                        else (None, logged ''execute''
                                (s\<lparr>committed := (if q = create_sql then [] else committed s @ [q])\<rparr>))),
      commit = (\<lambda>s. (None, logged ''commit'' s)),
      rollback = (\<lambda>s. (None, logged ''rollback'' s)),
      cursor_close = (\<lambda>s. (None, logged ''cursor.close'' s)),
      conn_close = (\<lambda>s. (None, logged ''conn.close'' s))\<rparr>"

text \<open>
  The insert of \<open>malformed_record\<close> is refused: its text has \<^verbatim>\<open>abc\<close> where a number
  is due.
\<close>

definition rejects_malformed :: "string \<Rightarrow> bool" where
  "rejects_malformed q = (insert_sql malformed_record = Inr q)"

text \<open>
  An environment whose every request is answered with the given status and
  \<open>sample_data\<close> as body. Its formatter fills the \<^verbatim>\<open>{name}\<close> fields of a template
  that has no escapes and no format specifications.
\<close>

fun fill_fields :: "string \<Rightarrow> string option \<Rightarrow> (string \<times> string) list \<Rightarrow> error + string" where
  "fill_fields [] None kw = Inr []"
| "fill_fields [] (Some name) kw = Inl ValueError"
| "fill_fields (c # cs) None kw =
     (if c = CHR ''{'' then fill_fields cs (Some []) kw
      else and_then (fill_fields cs None kw) (\<lambda>r. Inr (c # r)))"
| "fill_fields (c # cs) (Some name) kw =
     (if c = CHR ''}'' then
        (case map_of kw name of
           None \<Rightarrow> Inl (KeyError name)
         | Some v \<Rightarrow> and_then (fill_fields cs None kw) (\<lambda>r. Inr (v @ r)))
      else fill_fields cs (Some (name @ [c])) kw)"

definition sample_env :: "nat \<Rightarrow> env" where
  "sample_env status =
     \<lparr>variables = map_of [(''alpha_vantage_api_key'', ''demo''),
                          (''url'', ''https://api.test/q?s={symbol}&k={vantage_api_key}'')],
      str_format = (\<lambda>template symbol key.
         fill_fields template None [(''symbol'', symbol), (''vantage_api_key'', key)]),
      http_get = (\<lambda>url. Inr \<lparr>status_code = status, body_json = Inr sample_data\<rparr>),
      today = sample_now\<rparr>"

section \<open>Facts about the library model and the test data\<close>

lemma strptime_midnight: "strptime s = Inr t \<Longrightarrow> micros t = 0"
  by (auto simp: strptime_def Let_def split: list.splits prod.splits if_splits)

lemmas date_defs = strptime_def re_Ymd_def re_Y_def re_m_def re_d_def re_digit_def
  re_nonzero_def seq_def alt_def one_of_def int_of_group_def digit_val_def days_in_month_def
  DAYS_IN_MONTH_def ymd2ord_def days_before_year_def days_before_month_def
  DAYS_BEFORE_MONTH_def is_leap_def

lemma sample_now_value: "sample_now = \<lparr>ordinal = 738917, micros = 43200000000\<rparr>"
  by (simp add: sample_now_def mk_datetime_def ymd2ord_def days_before_year_def
        days_before_month_def DAYS_BEFORE_MONTH_def is_leap_def)

lemma strptime_samples:
  "strptime ''2024-03-01'' = Inr \<lparr>ordinal = 738946, micros = 0\<rparr>"
  "strptime ''2024-01-10'' = Inr \<lparr>ordinal = 738895, micros = 0\<rparr>"
  "strptime ''2023-11-03'' = Inr \<lparr>ordinal = 738827, micros = 0\<rparr>"
  "strptime ''2023-10-01'' = Inr \<lparr>ordinal = 738794, micros = 0\<rparr>"
  "strptime ''not-a-date'' = Inl ValueError"
  by (simp_all add: date_defs)

lemmas filter_defs = last_90d_def and_then_def sub_days_def MAXORDINAL_def TIME_SERIES_def
  price_data_def bar_field_def dt_ge_def sample_bar_def sample_record_def

lemma sample_run:
  "last_90d sample_data ''MSFT'' sample_now
     = Inr [sample_record ''2024-03-01'' ''MSFT'', sample_record ''2024-01-10'' ''MSFT'']"
  by (simp add: sample_data_def sample_now_value strptime_samples filter_defs)

lemma sample_run_midnight:
  "last_90d sample_data ''MSFT'' (sample_now\<lparr>micros := 0\<rparr>)
     = Inr [sample_record ''2024-03-01'' ''MSFT'', sample_record ''2024-01-10'' ''MSFT'',
            sample_record ''2023-11-03'' ''MSFT'']"
  by (simp add: sample_data_def sample_now_value strptime_samples filter_defs)

lemma bad_key_run: "last_90d bad_key_data ''MSFT'' sample_now = Inl ValueError"
  by (simp add: bad_key_data_def sample_now_value strptime_samples filter_defs)

lemmas wh_defs = limited_wh_def logged_def store0_def
lemmas sql_defs = insert_sql_def and_then_def sample_record_def create_sql_def target_table_def

lemma limited_wh_transactional: "only_commit_persists (limited_wh cap) committed"
  by (simp add: only_commit_persists_def limited_wh_def logged_def)


section \<open>The 90-day window\<close>

lemma price_data_date:
  "price_data data symbol d = Inr pd \<Longrightarrow> subscript pd ''date'' = Inr (JStr d)"
  by (auto simp: price_data_def and_then_def split: sum.splits)

lemma window_loop_dates:
  "window_loop data symbol nda ks acc = Inr rs \<Longrightarrow>
   map (\<lambda>r. subscript r ''date'') rs
     = map (\<lambda>r. subscript r ''date'') acc @ map Inr (filter (passes nda) ks)"
proof (induction data symbol nda ks acc arbitrary: rs rule: window_loop.induct)
  case (1 data symbol nda results)
  then show ?case by simp
next
  case (2 data symbol nda d ds results)
  from "2.prems" obtain t where t: "strptime d = Inr t"
    by (cases "strptime d") simp_all
  show ?case
  proof (cases "dt_ge t nda")
    case True
    with "2.prems" t obtain pd where pd: "price_data data symbol d = Inr pd"
      by (cases "price_data data symbol d") simp_all
    from "2.prems" t True pd
    have "window_loop data symbol nda ds (results @ [pd]) = Inr rs" by simp
    from "2.IH"(1)[OF t True pd this] price_data_date[OF pd] t True
    show ?thesis by (simp add: passes_def)
  next
    case False
    from "2.prems" t False
    have "window_loop data symbol nda ds results = Inr rs" by simp
    from "2.IH"(2)[OF t False this] t False
    show ?thesis by (simp add: passes_def)
  qed
qed simp_all

lemma window_loop_parses:
  "window_loop data symbol nda ks acc = Inr rs \<Longrightarrow> d \<in> set ks \<Longrightarrow> \<not> isl (strptime_val d)"
proof (induction data symbol nda ks acc arbitrary: rs rule: window_loop.induct)
  case (2 data symbol nda k ds results)
  from "2.prems"(1) obtain t where t: "strptime k = Inr t"
    by (cases "strptime k") simp_all
  show ?case
  proof (cases "d = JStr k")
    case True
    then show ?thesis using t by simp
  next
    case False
    with "2.prems"(2) have mem: "d \<in> set ds" by simp
    show ?thesis
    proof (cases "dt_ge t nda")
      case True
      with "2.prems"(1) t obtain pd where pd: "price_data data symbol k = Inr pd"
        by (cases "price_data data symbol k") simp_all
      from "2.prems"(1) t True pd
      have "window_loop data symbol nda ds (results @ [pd]) = Inr rs" by simp
      from "2.IH"(1)[OF t True pd this mem] show ?thesis .
    next
      case False
      from "2.prems"(1) t False
      have "window_loop data symbol nda ds results = Inr rs" by simp
      from "2.IH"(2)[OF t False this mem] show ?thesis .
    qed
  qed
qed simp_all

lemma last_90d_run:
  assumes "last_90d data symbol now = Inr results"
  shows "0 < ordinal now - 90 \<and> ordinal now - 90 \<le> MAXORDINAL
         \<and> window_loop data symbol (now\<lparr>ordinal := ordinal now - 90\<rparr>) (series_keys data) [] = Inr results"
  using assms
  by (auto simp: last_90d_def series_keys_def and_then_def sub_days_def Let_def
           split: sum.splits if_splits)

lemma passes_kept:
  "passes (now\<lparr>ordinal := ordinal now - 90\<rparr>) d = kept now d"
proof (cases d)
  case (JStr s)
  show ?thesis
  proof (cases "strptime s")
    case (Inl e)
    then show ?thesis using JStr by (simp add: passes_def kept_def)
  next
    case (Inr t)
    from strptime_midnight[OF Inr] show ?thesis
      using JStr Inr by (auto simp: passes_def kept_def dt_ge_def)
  qed
qed (simp_all add: passes_def kept_def)

text \<open>
  On a series of that shape, with the day 90 days back in the range of dates, the filter
  returns: it raises nothing.
\<close>

lemma price_data_returns:
  assumes "subscript data TIME_SERIES = Inr (JObj bars)" and "map_of bars d = Some bar"
    and "has_fields bar"
  shows "\<not> isl (price_data data symbol d)"
proof -
  have f: "bar_field data d f = subscript bar f" for f
    using assms(1,2) by (simp add: bar_field_def and_then_def)
  from assms(3) obtain a b c e g where
    "subscript bar ''1. open'' = Inr a" "subscript bar ''2. high'' = Inr b"
    "subscript bar ''3. low'' = Inr c" "subscript bar ''4. close'' = Inr e"
    "subscript bar ''5. volume'' = Inr g"
    by (auto simp: has_fields_def isl_def split: sum.splits)
       (metis (no_types) sum.exhaust_sel isl_def)+
  then show ?thesis by (simp add: price_data_def f and_then_def)
qed

lemma window_loop_returns:
  assumes data: "subscript data TIME_SERIES = Inr (JObj bars)" and wf: "well_formed_series bars"
  shows "set ks \<subseteq> set bars \<Longrightarrow>
         \<not> isl (window_loop data symbol nda (map (\<lambda>kv. JStr (fst kv)) ks) acc)"
proof (induction ks arbitrary: acc)
  case Nil
  show ?case by simp
next
  case (Cons kb ks)
  from Cons.prems have mem: "kb \<in> set bars" and rest: "set ks \<subseteq> set bars" by simp_all
  from wf mem have "\<not> isl (strptime (fst kb))"
    by (auto simp: well_formed_series_def list_all_iff)
  then obtain t where t: "strptime (fst kb) = Inr t" by (cases "strptime (fst kb)") simp_all
  from mem obtain bar where look: "map_of bars (fst kb) = Some bar"
    by (cases "map_of bars (fst kb)") (auto simp: map_of_eq_None_iff)
  then have "(fst kb, bar) \<in> set bars" by (rule map_of_SomeD)
  with wf have "has_fields bar" by (auto simp: well_formed_series_def list_all_iff)
  from price_data_returns[OF data look this, of symbol]
  obtain pd where pd: "price_data data symbol (fst kb) = Inr pd"
    by (cases "price_data data symbol (fst kb)") simp_all
  show ?case using t pd Cons.IH[OF rest] by simp
qed

lemma last_90d_returns:
  assumes "0 < ordinal now - 90" and "ordinal now - 90 \<le> MAXORDINAL"
    and "subscript data TIME_SERIES = Inr (JObj bars)" and "well_formed_series bars"
  shows "\<not> isl (last_90d data symbol now)"
proof -
  from assms(3) obtain kvs where d: "data = JObj kvs" and l: "map_of kvs TIME_SERIES = Some (JObj bars)"
    by (cases data) (auto split: option.splits)
  show ?thesis
    using assms(1,2) window_loop_returns[OF assms(3,4), of bars symbol "now\<lparr>ordinal := ordinal now - 90\<rparr>" "[]"]
    by (simp add: last_90d_def and_then_def sub_days_def d l)
qed

text \<open>
  Claim C1, as the code has it. Whenever the filter returns, the dates of the records it
  emits are, in the order of the series, exactly the date keys that pass the test of the
  loop: the key parses, and its day is later than the day 90 days before \<open>now\<close>, or is
  that very day and \<open>now\<close> is exactly midnight. The bound is \<open>now\<close> minus 90 days with
  the time of day of \<open>now\<close>, and nothing bounds a date from above.
\<close>

theorem window_exact:
  assumes "last_90d data symbol now = Inr results"
  shows "map (\<lambda>r. subscript r ''date'') results = map Inr (filter (kept now) (series_keys data))"
proof -
  from last_90d_run[OF assms]
  have "window_loop data symbol (now\<lparr>ordinal := ordinal now - 90\<rparr>) (series_keys data) [] = Inr results"
    by simp
  from window_loop_dates[OF this] have
    "map (\<lambda>r. subscript r ''date'') results
       = map Inr (filter (passes (now\<lparr>ordinal := ordinal now - 90\<rparr>)) (series_keys data))"
    by simp
  moreover have "passes (now\<lparr>ordinal := ordinal now - 90\<rparr>) = kept now"
    by (rule ext) (rule passes_kept)
  ultimately show ?thesis by simp
qed

theorem window_exact_witness:
  "last_90d sample_data ''MSFT'' (sample_now\<lparr>micros := 0\<rparr>)
     = Inr [sample_record ''2024-03-01'' ''MSFT'', sample_record ''2024-01-10'' ''MSFT'',
            sample_record ''2023-11-03'' ''MSFT'']
   \<and> map (\<lambda>r. subscript r ''date'')
        [sample_record ''2024-03-01'' ''MSFT'', sample_record ''2024-01-10'' ''MSFT'',
         sample_record ''2023-11-03'' ''MSFT'']
     = map Inr (filter (kept (sample_now\<lparr>micros := 0\<rparr>)) (series_keys sample_data))"
  using sample_run_midnight window_exact[OF sample_run_midnight] by simp

text \<open>
  At noon of 2024-02-01 the filter emits the bar of 2024-03-01, a date after the
  reference date, and omits the bar of 2023-11-03, the day exactly 90 days before it.
\<close>

theorem window_range_counterexample:
  "last_90d sample_data ''MSFT'' sample_now
     = Inr [sample_record ''2024-03-01'' ''MSFT'', sample_record ''2024-01-10'' ''MSFT'']
   \<and> subscript sample_data ''Time Series (Daily)''
     = Inr (JObj [(''2024-03-01'', sample_bar), (''2024-01-10'', sample_bar),
                  (''2023-11-03'', sample_bar), (''2023-10-01'', sample_bar)])
   \<and> ordinal sample_now < ymd2ord 2024 3 1
   \<and> ymd2ord 2023 11 3 = ordinal sample_now - 90"
  using sample_run
  by (simp add: sample_data_def sample_now_value ymd2ord_def days_before_year_def
        days_before_month_def DAYS_BEFORE_MONTH_def is_leap_def)

text \<open>
  Claim C6, as the code has it. A date key that \<^verbatim>\<open>strptime\<close> rejects is not skipped:
  whenever the series holds one, the filter raises and returns no records.
\<close>

theorem bad_key_raises:
  assumes "d \<in> set (series_keys data)" and "strptime_val d = Inl e"
  shows "isl (last_90d data symbol now)"
proof (cases "last_90d data symbol now")
  case (Inl e')
  then show ?thesis by simp
next
  case (Inr results)
  from last_90d_run[OF Inr]
  have "window_loop data symbol (now\<lparr>ordinal := ordinal now - 90\<rparr>) (series_keys data) [] = Inr results"
    by simp
  from window_loop_parses[OF this assms(1)] assms(2) show ?thesis by simp
qed

theorem bad_key_raises_witness:
  "JStr ''not-a-date'' \<in> set (series_keys bad_key_data)
   \<and> strptime_val (JStr ''not-a-date'') = Inl ValueError
   \<and> isl (last_90d bad_key_data ''MSFT'' (sample_now\<lparr>micros := 0\<rparr>))"
proof -
  have m: "JStr ''not-a-date'' \<in> set (series_keys bad_key_data)"
    by (simp add: bad_key_data_def series_keys_def and_then_def TIME_SERIES_def)
  have p: "strptime_val (JStr ''not-a-date'') = Inl ValueError"
    by (simp add: strptime_samples)
  show ?thesis using m p bad_key_raises[OF m p] by simp
qed

text \<open>A series whose second key is not a date: the task ends with ValueError.\<close>

theorem bad_key_counterexample:
  "last_90d bad_key_data ''MSFT'' sample_now = Inl ValueError
   \<and> series_keys bad_key_data = [JStr ''2024-01-10'', JStr ''not-a-date'']"
  using bad_key_run by (simp add: bad_key_data_def series_keys_def and_then_def TIME_SERIES_def)

section \<open>The fetch and the HTTP status\<close>

lemma extract_with_status: "extract_task (with_status c E) = extract_task E"
  by (auto simp: extract_task_def with_status_def variable_get_def and_then_def Let_def
           split: option.splits sum.splits)

lemma filter_with_status:
  "return_last_90d_price (with_status c E) symbol = return_last_90d_price E symbol"
  by (auto simp: return_last_90d_price_def with_status_def variable_get_def and_then_def Let_def
           split: option.splits sum.splits)

text \<open>
  Claim C8, as the code has it. No task reads the status of a response: with every
  response given any status \<open>c\<close>, \<open>extract\<close> returns or raises what it did before, and
  so does the whole run. The filter task is invoked whatever \<open>extract\<close> did, since it
  is not downstream of it.
\<close>

theorem status_never_read:
  "extract_task (with_status c E) = extract_task E
   \<and> run_dag (with_status c E) W s = run_dag E W s
   \<and> filter_outcome (run_dag E W s) = return_last_90d_price E ''MSFT''"
  by (simp add: run_dag_def extract_with_status filter_with_status Let_def split: sum.splits prod.splits)

text \<open>
  Every request answered with HTTP 500 and a JSON body: \<open>extract\<close> returns the body, and
  the filter and the load run.
\<close>

lemma sample_env_extract: "extract_task (sample_env 500) = Inr sample_data"
  by (simp add: extract_task_def sample_env_def variable_get_def and_then_def)

theorem http_500_counterexample:
  "http_get (sample_env 500) ''https://api.test/q?s=MSFT&k=demo''
     = Inr \<lparr>status_code = 500, body_json = Inr sample_data\<rparr>
   \<and> extract_task (sample_env 500) = Inr sample_data
   \<and> filter_outcome (run_dag (sample_env 500) (limited_wh 5) store0)
     = Inr [sample_record ''2024-03-01'' ''MSFT'', sample_record ''2024-01-10'' ''MSFT'']
   \<and> load_outcome (run_dag (sample_env 500) (limited_wh 5) store0) = Some (Inr JNull)"
proof -
  have f: "return_last_90d_price (sample_env 500) ''MSFT''
     = Inr [sample_record ''2024-03-01'' ''MSFT'', sample_record ''2024-01-10'' ''MSFT'']"
    using sample_run
    by (simp add: return_last_90d_price_def sample_env_def variable_get_def and_then_def)
  have l: "fst (load (limited_wh 5)
      [sample_record ''2024-03-01'' ''MSFT'', sample_record ''2024-01-10'' ''MSFT''] store0) = Inr JNull"
    by (simp add: load_def try_body_def run_statements_def limited_wh_def logged_def store0_def
      insert_sql_def and_then_def sample_record_def)
  obtain result s' where ld: "load (limited_wh 5)
      [sample_record ''2024-03-01'' ''MSFT'', sample_record ''2024-01-10'' ''MSFT''] store0 = (result, s')"
    by (cases "load (limited_wh 5)
      [sample_record ''2024-03-01'' ''MSFT'', sample_record ''2024-01-10'' ''MSFT''] store0")
  with l have res: "result = Inr JNull" by simp
  have g: "http_get (sample_env 500) ''https://api.test/q?s=MSFT&k=demo''
     = Inr \<lparr>status_code = 500, body_json = Inr sample_data\<rparr>"
    by (simp add: sample_env_def)
  show ?thesis
    using g sample_env_extract
    by (simp add: run_dag_def Let_def f transform_def ld res)
qed

section \<open>The transform task\<close>

lemma transform_loop_append: "transform_loop xs acc = acc @ xs"
  by (induction xs arbitrary: acc) simp_all

text \<open>
  Claim C10. \<open>transform\<close> is the identity: for every input sequence it returns the same
  elements in the same order.
\<close>

theorem transform_identity: "transform stock_data = stock_data"
  by (simp add: transform_def transform_loop_append)

text \<open>Claim C9. \<open>transform\<close> is idempotent: applying it twice is applying it once.\<close>

theorem transform_idempotent: "transform (transform x) = transform x"
  by (simp add: transform_def transform_loop_append)

text \<open>
  Claim C5, as the code has it. \<open>transform\<close> coerces nothing and validates nothing: the
  output has as many records as the input, and reading any field \<open>f\<close> of the output
  records gives what it gives on the input records, a numeric string staying a string and
  a missing field staying missing.
\<close>

theorem transform_keeps_fields:
  "map (\<lambda>r. subscript r f) (transform bars) = map (\<lambda>r. subscript r f) bars
   \<and> length (transform bars) = length bars"
  by (simp add: transform_def transform_loop_append)

text \<open>
  A record whose \<^verbatim>\<open>open\<close> is the string \<^verbatim>\<open>"10"\<close> and one whose \<^verbatim>\<open>open\<close> is
  \<^verbatim>\<open>"abc"\<close> come back as they went in: no number, no exception.
\<close>

theorem transform_no_coercion_counterexample:
  "transform [sample_record ''2024-01-10'' ''MSFT'', malformed_record]
     = [sample_record ''2024-01-10'' ''MSFT'', malformed_record]
   \<and> subscript (sample_record ''2024-01-10'' ''MSFT'') ''open'' = Inr (JStr ''10'')
   \<and> subscript malformed_record ''open'' = Inr (JStr ''abc'')"
  by (simp add: transform_def sample_record_def malformed_record_def)

section \<open>The load task\<close>

text \<open>
  Claim C7, as the code has it. On an empty batch \<open>load\<close> makes no call on the warehouse
  (whatever the warehouse, its state is the one it was given), raises nothing and returns
  \<^verbatim>\<open>None\<close>.
\<close>

theorem load_empty: "load W [] s = (Inr JNull, s)"
  by (simp add: load_def)

text \<open>What comes back is \<^verbatim>\<open>None\<close>, which has no \<^verbatim>\<open>rowsLoaded\<close> to read.\<close>

theorem load_empty_counterexample:
  "fst (load (limited_wh 5) [] store0) = Inr JNull
   \<and> subscript JNull ''rowsLoaded'' = Inl TypeError"
  by (simp add: load_def)

lemma insert_loop_durable:
  assumes "\<And>q s. durable (snd (execute W q s)) = durable s"
  shows "durable (snd (insert_loop W rs s)) = durable s"
proof (induction rs arbitrary: s)
  case Nil
  show ?case by simp
next
  case (Cons r rs)
  show ?case
  proof (cases "insert_sql r")
    case (Inl e)
    then show ?thesis by simp
  next
    case (Inr sql)
    obtain res s' where ex: "execute W sql s = (res, s')" by (cases "execute W sql s")
    have d: "durable s' = durable s" using assms[of sql s] ex by simp
    show ?thesis
    proof (cases res)
      case None
      then show ?thesis using Inr ex d Cons.IH[of s'] by simp
    next
      case (Some e)
      then show ?thesis using Inr ex d by simp
    qed
  qed
qed

lemma run_statements_durable:
  assumes "\<And>q s. durable (snd (execute W q s)) = durable s"
  shows "durable (snd (run_statements W records s)) = durable s"
proof -
  obtain res s1 where ex: "execute W create_sql s = (res, s1)" by (cases "execute W create_sql s")
  have d: "durable s1 = durable s" using assms[of create_sql s] ex by simp
  show ?thesis
    using ex d insert_loop_durable[of durable W records s1, OF assms]
    by (cases res) (simp_all add: run_statements_def)
qed

lemma statements_errorD:
  assumes "statements_error W records s = Some e"
  obtains s1 s2 s3 where "get_conn W s = (None, s1)" "cursor W s1 = (None, s2)"
    "run_statements W records s2 = (Some e, s3)"
proof -
  obtain r1 s1 where g: "get_conn W s = (r1, s1)" by (cases "get_conn W s")
  obtain r2 s2 where c: "cursor W s1 = (r2, s2)" by (cases "cursor W s1")
  obtain r3 s3 where r: "run_statements W records s2 = (r3, s3)" by (cases "run_statements W records s2")
  from assms g have r1: "r1 = None" by (cases r1) (simp_all add: statements_error_def)
  from assms g c r1 have r2: "r2 = None" by (cases r2) (simp_all add: statements_error_def)
  from assms g c r r1 r2 have "r3 = Some e" by (simp add: statements_error_def)
  with g c r r1 r2 that show thesis by blast
qed

text \<open>
  What the task does achieve. When the table statement or an insert of a non-empty batch
  raises, \<^verbatim>\<open>conn.commit()\<close> is not reached; so on a connection where no call but
  \<^verbatim>\<open>commit\<close> changes the committed contents, they are after \<open>load\<close> what they were
  before it.
\<close>

lemma load_never_commits_on_failure:
  assumes law: "only_commit_persists W durable"
    and nonempty: "records \<noteq> []"
    and failed: "statements_error W records s = Some e"
  shows "durable (snd (load W records s)) = durable s"
proof -
  from failed obtain s1 s2 s3 where g: "get_conn W s = (None, s1)"
    and c: "cursor W s1 = (None, s2)"
    and r: "run_statements W records s2 = (Some e, s3)"
    by (rule statements_errorD)
  have ex: "\<And>q s. durable (snd (execute W q s)) = durable s"
    using law by (simp add: only_commit_persists_def)
  have d1: "durable s1 = durable s" using law g by (metis only_commit_persists_def snd_conv)
  have d2: "durable s2 = durable s1" using law c by (metis only_commit_persists_def snd_conv)
  have d3: "durable s3 = durable s2" using run_statements_durable[of durable W records s2, OF ex] r by simp
  obtain p s4 where rb: "rollback W s3 = (p, s4)" by (cases "rollback W s3")
  have d4: "durable s4 = durable s3" using law rb by (metis only_commit_persists_def snd_conv)
  obtain r5 s5 where cc: "cursor_close W s4 = (r5, s5)" by (cases "cursor_close W s4")
  have d5: "durable s5 = durable s4" using law cc by (metis only_commit_persists_def snd_conv)
  obtain r6 s6 where cl: "conn_close W s5 = (r6, s6)" by (cases "conn_close W s5")
  have d6: "durable s6 = durable s5" using law cl by (metis only_commit_persists_def snd_conv)
  have tb: "try_body W records s2 = (Some e, s3)" using r by (simp add: try_body_def)
  have "snd (load W records s) = s5 \<or> snd (load W records s) = s6"
    using nonempty g c tb rb cc cl
    by (cases r5; cases r6; cases p) (simp_all add: load_def)
  then show ?thesis using d1 d2 d3 d4 d5 d6 by auto
qed

lemma load_never_commits_on_failure_example:
  "[sample_record ''2024-01-10'' ''MSFT'', sample_record ''2024-01-11'' ''MSFT''] \<noteq> []
   \<and> statements_error (limited_wh 2)
        [sample_record ''2024-01-10'' ''MSFT'', sample_record ''2024-01-11'' ''MSFT''] store0
      = Some DatabaseError
   \<and> committed (snd (load (limited_wh 2)
        [sample_record ''2024-01-10'' ''MSFT'', sample_record ''2024-01-11'' ''MSFT''] store0))
      = committed store0"
proof -
  let ?rs = "[sample_record ''2024-01-10'' ''MSFT'', sample_record ''2024-01-11'' ''MSFT'']"
  have f: "statements_error (limited_wh 2) ?rs store0 = Some DatabaseError"
    by (simp add: statements_error_def run_statements_def wh_defs sql_defs)
  have n: "?rs \<noteq> []" by simp
  show ?thesis
    using f load_never_commits_on_failure[OF limited_wh_transactional n f] by simp
qed

text \<open>
  Claim C2, on the code. The task asks for the batch to be undone
  (\<^verbatim>\<open>conn.rollback()\<close> in the handler, \<^verbatim>\<open>conn.commit()\<close> after the loop), but it
  opens no transaction, and the table statement, which its comment calls "Create the table
  if it does not exist", is \<^verbatim>\<open>CREATE OR REPLACE TABLE\<close>. On a session where statements
  take effect as they are executed, a batch whose second insert is refused leaves the rows
  of the earlier run gone and the row of the first record in the table: \<open>load\<close> has
  called \<^verbatim>\<open>rollback\<close> and returned \<^verbatim>\<open>None\<close>, and the table is not what it was.
\<close>

theorem load_partial_on_autocommit:
  "statements_error (autocommit_wh rejects_malformed)
     [sample_record ''2024-01-11'' ''MSFT'', malformed_record] store0 = Some DatabaseError
   \<and> fst (load (autocommit_wh rejects_malformed)
        [sample_record ''2024-01-11'' ''MSFT'', malformed_record] store0) = Inr JNull
   \<and> calls (snd (load (autocommit_wh rejects_malformed)
        [sample_record ''2024-01-11'' ''MSFT'', malformed_record] store0))
     = [''get_conn'', ''cursor'', ''execute'', ''execute'', ''execute'', ''rollback'',
        ''cursor.close'', ''conn.close'']
   \<and> committed store0 = [''rows of an earlier run'']
   \<and> map Inr (committed (snd (load (autocommit_wh rejects_malformed)
        [sample_record ''2024-01-11'' ''MSFT'', malformed_record] store0)))
     = [insert_sql (sample_record ''2024-01-11'' ''MSFT'')]"
  by (simp add: statements_error_def run_statements_def try_body_def load_def autocommit_wh_def
        rejects_malformed_def logged_def store0_def insert_sql_def and_then_def
        sample_record_def malformed_record_def create_sql_def target_table_def)




text \<open>
  Claim C4, on the code. The statement \<open>load\<close> sends for a record holds the values of
  the record in its text, so the statements of two records differ as texts. Nothing is
  bound: \<^verbatim>\<open>cur.execute(sql)\<close> is given the text alone.
\<close>

theorem insert_sql_interpolates:
  "insert_sql (sample_record ''2024-01-10'' ''MSFT'')
     = Inr ([newline]
        @ ''            INSERT INTO stock.msft.stock_price (date, symbol, open, high, low, close, volume)''
        @ [newline] @ ''            VALUES (TO_DATE('' @ [squote] @ ''2024-01-10'' @ [squote]
        @ '', '' @ [squote] @ ''YYYY-MM-DD'' @ [squote] @ ''), '' @ [squote] @ ''MSFT'' @ [squote]
        @ '', 10, 12, 9, 11, 1000)'' @ [newline] @ ''            '')
   \<and> insert_sql (sample_record ''2024-01-10'' ''MSFT'')
       \<noteq> insert_sql (sample_record ''2024-01-11'' ''MSFT'')"
  by (simp add: sql_defs)

end
